theory Spec2Isabelle
  imports Complex_Main
begin

section \<open>Investment performance simulator: the projection engine of app.py\<close>

text \<open>
  The engine of \<^verbatim>\<open>app.py\<close> is embedded function by function. Python numbers are
  modelled as \<^typ>\<open>real\<close> (exact arithmetic: rounding of binary floating point is not
  modelled), the horizon \<^verbatim>\<open>years\<close> as \<^typ>\<open>int\<close>, dictionaries as association lists in
  insertion order, a data frame as the list of its rows, and every exception the engine
  can raise as a value of \<open>error\<close> (a \<^verbatim>\<open>KeyError\<close> without the key it carries).
  What only the finite range of floating point brings about is outside this model: the
  \<^verbatim>\<open>OverflowError\<close> of a power whose result is out of range, infinities and NaN. A
  statement below that the calculator returns a value is a statement about the value of
  its formula over the reals.
\<close>

subsection \<open>Errors and arithmetic that can raise\<close>

datatype error = ZeroDivisionError | KeyError

text \<open>
  \<^verbatim>\<open>base ** n\<close> with an integer exponent, over the reals: a negative exponent is the
  reciprocal of the positive power, and \<^verbatim>\<open>0 ** n\<close> with \<^verbatim>\<open>n < 0\<close> raises
  \<^verbatim>\<open>ZeroDivisionError\<close>. The \<^verbatim>\<open>OverflowError\<close> that a float power raises when its
  result exceeds the float range has no counterpart over the reals and is not modelled.
\<close>

definition py_pow :: "real \<Rightarrow> int \<Rightarrow> error + real" where
  "py_pow base n =
     (if 0 \<le> n then Inr (base ^ nat n)
      else if base = 0 then Inl ZeroDivisionError
      else Inr (1 / base ^ nat (- n)))"

text \<open>\<^verbatim>\<open>d[k]\<close> on a dictionary: \<^verbatim>\<open>KeyError\<close> when the key is absent.\<close>

definition dict_get :: "(string \<times> real) list \<Rightarrow> string \<Rightarrow> error + real" where
  "dict_get d k = (case map_of d k of None \<Rightarrow> Inl KeyError | Some v \<Rightarrow> Inr v)"

subsection \<open>Reference tables\<close>

definition DEFAULT_RETURNS :: "(string \<times> real) list" where
  "DEFAULT_RETURNS =
     [(''single_asset'', 6 / 100),
      (''stocks_kr'', 8 / 100),
      (''stocks_global'', 10 / 100),
      (''reits'', 5 / 100),
      (''bonds'', 35 / 1000),
      (''deposits'', 3 / 100),
      (''crypto'', 15 / 100)]"

definition ASSET_VOLATILITY :: "(string \<times> real) list" where
  "ASSET_VOLATILITY =
     [(''stocks_kr'', 20 / 100),
      (''stocks_global'', 18 / 100),
      (''reits'', 15 / 100),
      (''bonds'', 5 / 100),
      (''deposits'', 1 / 100),
      (''crypto'', 70 / 100)]"

definition COLORS :: "(string \<times> string) list" where
  "COLORS =
     [(''principal'', ''#3498db''),
      (''interest'', ''#2ecc71''),
      (''stocks_kr'', ''#e74c3c''),
      (''stocks_global'', ''#f39c12''),
      (''reits'', ''#9b59b6''),
      (''bonds'', ''#1abc9c''),
      (''deposits'', ''#34495e''),
      (''crypto'', ''#e67e22'')]"

definition ASSET_NAMES :: "(string \<times> string) list" where
  "ASSET_NAMES =
     [(''stocks_kr'', ''Korean Stocks''),
      (''stocks_global'', ''Global Stocks''),
      (''reits'', ''REITs''),
      (''bonds'', ''Bonds''),
      (''deposits'', ''Deposits/MMF''),
      (''crypto'', ''Cryptocurrency'')]"

subsection \<open>\<^verbatim>\<open>calculate_future_value\<close>\<close>

text \<open>
  The period rate \<open>r\<close> and the period count \<open>n\<close> are chosen by the frequency string
  (anything but \<^verbatim>\<open>'monthly'\<close> is yearly); the contribution term uses the annuity formula
  under the guard \<^verbatim>\<open>r > 0\<close> and \<^verbatim>\<open>monthly_payment * n\<close> otherwise.
\<close>

definition calculate_future_value ::
  "real \<Rightarrow> real \<Rightarrow> real \<Rightarrow> int \<Rightarrow> string \<Rightarrow> error + real" where
  "calculate_future_value principal' monthly_payment annual_rate years compound_frequency =
     (let r = (if compound_frequency = ''monthly'' then annual_rate / 12 else annual_rate);
          n = (if compound_frequency = ''monthly'' then years * 12 else years)
      in (case py_pow (1 + r) n of
            Inl e \<Rightarrow> Inl e
          | Inr p \<Rightarrow>
              (let fv_principal = principal' * p
               in if r > 0 then Inr (fv_principal + monthly_payment * ((p - 1) / r))
                  else Inr (fv_principal + monthly_payment * of_int n))))"

subsection \<open>\<^verbatim>\<open>generate_year_by_year_data\<close>\<close>

record year_record =
  Year :: int
  Beginning_Balance :: real
  Annual_Investment :: real
  Interest_Earned :: real
  Ending_Balance :: real
  Total_Invested :: real
  Total_Interest :: real

text \<open>The inner loop \<^verbatim>\<open>for month in range(12)\<close>, by the number of months left.\<close>

fun month_loop :: "nat \<Rightarrow> real \<Rightarrow> real \<Rightarrow> real \<Rightarrow> real" where
  "month_loop 0 monthly_payment annual_rate current_balance = current_balance"
| "month_loop (Suc k) monthly_payment annual_rate current_balance =
     month_loop k monthly_payment annual_rate
       (current_balance * (1 + annual_rate / 12) + monthly_payment)"

text \<open>
  The outer loop \<^verbatim>\<open>for year in range(1, years + 1)\<close> over the loop state
  \<open>(current_balance, total_invested, data)\<close>.
\<close>

function year_loop ::
  "real \<Rightarrow> real \<Rightarrow> int \<Rightarrow> int \<Rightarrow> real \<times> real \<times> year_record list \<Rightarrow> year_record list" where
  "year_loop monthly_payment annual_rate years year (current_balance, total_invested, data) =
     (if year \<le> years then
        let yearly_return = current_balance * annual_rate;
            yearly_investment = monthly_payment * 12;
            current_balance = month_loop 12 monthly_payment annual_rate current_balance;
            total_invested = total_invested + yearly_investment
        in year_loop monthly_payment annual_rate years (year + 1)
             (current_balance, total_invested,
              data @
              [\<lparr>Year = year,
                Beginning_Balance = current_balance - yearly_return - yearly_investment,
                Annual_Investment = yearly_investment,
                Interest_Earned = yearly_return,
                Ending_Balance = current_balance,
                Total_Invested = total_invested,
                Total_Interest = current_balance - total_invested\<rparr>])
      else data)"
  by pat_completeness auto
termination
  by (relation "measure (\<lambda>(monthly_payment, annual_rate, years, year, s). nat (years + 1 - year))")
     auto

declare year_loop.simps [simp del]

definition generate_year_by_year_data ::
  "real \<Rightarrow> real \<Rightarrow> real \<Rightarrow> int \<Rightarrow> year_record list" where
  "generate_year_by_year_data principal' monthly_payment annual_rate years =
     year_loop monthly_payment annual_rate years 1 (principal', principal', [])"

subsection \<open>\<^verbatim>\<open>calculate_portfolio_returns\<close>\<close>

text \<open>A row of the portfolio frame: a ledger row with the two columns added per asset.\<close>

record portfolio_record = year_record +
  Asset :: string
  Allocation :: real

definition tag_row :: "string \<Rightarrow> real \<Rightarrow> year_record \<Rightarrow> portfolio_record" where
  "tag_row asset allocation row =
     \<lparr>Year = Year row,
      Beginning_Balance = Beginning_Balance row,
      Annual_Investment = Annual_Investment row,
      Interest_Earned = Interest_Earned row,
      Ending_Balance = Ending_Balance row,
      Total_Invested = Total_Invested row,
      Total_Interest = Total_Interest row,
      Asset = asset,
      Allocation = allocation\<rparr>"

text \<open>
  The body of the loop for an asset of positive weight, with its two locals: \<open>fv\<close>
  (computed with the default frequency \<^verbatim>\<open>'monthly'\<close>, then not used) and
  \<open>yearly_data\<close>. \<^verbatim>\<open>returns[asset]\<close> raises \<^verbatim>\<open>KeyError\<close> for an asset without a return.
\<close>

definition asset_body ::
  "(string \<times> real) list \<Rightarrow> real \<Rightarrow> real \<Rightarrow> int \<Rightarrow> string \<Rightarrow> real \<Rightarrow>
     error + real \<times> portfolio_record list" where
  "asset_body returns principal' monthly_payment years asset allocation =
     (let asset_principal = principal' * allocation;
          asset_monthly = monthly_payment * allocation
      in (case dict_get returns asset of
            Inl e \<Rightarrow> Inl e
          | Inr asset_return \<Rightarrow>
              (case calculate_future_value asset_principal asset_monthly asset_return years
                      ''monthly'' of
                 Inl e \<Rightarrow> Inl e
               | Inr fv \<Rightarrow>
                   Inr (fv,
                        map (tag_row asset allocation)
                          (generate_year_by_year_data asset_principal asset_monthly
                             asset_return years)))))"

text \<open>The loop \<^verbatim>\<open>for asset, allocation in allocations.items()\<close> over \<open>portfolio_data\<close>.\<close>

fun asset_loop ::
  "(string \<times> real) list \<Rightarrow> (string \<times> real) list \<Rightarrow> real \<Rightarrow> real \<Rightarrow> int \<Rightarrow>
     portfolio_record list list \<Rightarrow> error + portfolio_record list list" where
  "asset_loop [] returns principal' monthly_payment years portfolio_data = Inr portfolio_data"
| "asset_loop ((asset, allocation) # items) returns principal' monthly_payment years
     portfolio_data =
     (if allocation > 0 then
        (case asset_body returns principal' monthly_payment years asset allocation of
           Inl e \<Rightarrow> Inl e
         | Inr (fv, yearly_data) \<Rightarrow>
             asset_loop items returns principal' monthly_payment years
               (portfolio_data @ [yearly_data]))
      else asset_loop items returns principal' monthly_payment years portfolio_data)"

definition calculate_portfolio_returns ::
  "(string \<times> real) list \<Rightarrow> (string \<times> real) list \<Rightarrow> real \<Rightarrow> real \<Rightarrow> int \<Rightarrow>
     error + portfolio_record list" where
  "calculate_portfolio_returns allocations returns principal' monthly_payment years =
     (case asset_loop allocations returns principal' monthly_payment years [] of
        Inl e \<Rightarrow> Inl e
      | Inr portfolio_data \<Rightarrow>
          Inr (if portfolio_data \<noteq> [] then concat portfolio_data else []))"

subsection \<open>Risk metrics of \<^verbatim>\<open>update_portfolio_performance\<close>\<close>

text \<open>
  A Python dictionary has distinct keys, so \<^verbatim>\<open>for asset in allocations\<close> with
  \<^verbatim>\<open>allocations[asset]\<close> in the body is the traversal of its items.
  \<^verbatim>\<open>sum(allocations[asset] * returns[asset] for asset in allocations)\<close> adds from the
  left, starting at 0.
\<close>

fun weighted_return_sum ::
  "(string \<times> real) list \<Rightarrow> (string \<times> real) list \<Rightarrow> real \<Rightarrow> error + real" where
  "weighted_return_sum [] returns acc = Inr acc"
| "weighted_return_sum ((asset, allocation) # items) returns acc =
     (case dict_get returns asset of
        Inl e \<Rightarrow> Inl e
      | Inr asset_return \<Rightarrow>
          weighted_return_sum items returns (acc + allocation * asset_return))"

text \<open>
  The sum under the square root: the assets of the allocation that are keys of
  \<^verbatim>\<open>ASSET_VOLATILITY\<close>, each with \<^verbatim>\<open>ASSET_VOLATILITY.get(asset, 0)\<close>.
\<close>

definition variance_sum :: "(string \<times> real) list \<Rightarrow> real" where
  "variance_sum allocations =
     sum_list
       (map (\<lambda>(asset, allocation).
               allocation ^ 2 *
               (case map_of ASSET_VOLATILITY asset of None \<Rightarrow> 0 | Some v \<Rightarrow> v) ^ 2)
          (filter (\<lambda>(asset, allocation). asset \<in> set (map fst ASSET_VOLATILITY)) allocations))"

text \<open>A division that records a zero divisor, to show which divisions the code guards.\<close>

definition checked_div :: "real \<Rightarrow> real \<Rightarrow> error + real" where
  "checked_div a b = (if b = 0 then Inl ZeroDivisionError else Inr (a / b))"

record risk_metrics =
  Weighted_Return :: real
  Portfolio_Volatility :: real
  Sharpe_Ratio :: real
  Max_Drawdown :: real

definition compute_risk_metrics ::
  "(string \<times> real) list \<Rightarrow> (string \<times> real) list \<Rightarrow> error + risk_metrics" where
  "compute_risk_metrics allocations returns =
     (case weighted_return_sum allocations returns 0 of
        Inl e \<Rightarrow> Inl e
      | Inr weighted_return \<Rightarrow>
          (let portfolio_volatility = sqrt (variance_sum allocations)
           in (case (if portfolio_volatility > 0
                     then checked_div (weighted_return - 3 / 100) portfolio_volatility
                     else Inr 0) of
                 Inl e \<Rightarrow> Inl e
               | Inr sharpe_ratio \<Rightarrow>
                   Inr \<lparr>Weighted_Return = weighted_return,
                        Portfolio_Volatility = portfolio_volatility,
                        Sharpe_Ratio = sharpe_ratio,
                        Max_Drawdown = portfolio_volatility * 2\<rparr>)))"

subsection \<open>The callbacks \<^verbatim>\<open>update_portfolio_performance\<close> and \<^verbatim>\<open>update_scenario_analysis\<close>\<close>

text \<open>
  The numbers the callbacks compute; the figure, the advice strings and the formatted
  text built from these numbers belong to the presentation and are left out, but for
  the lookups \<^verbatim>\<open>ASSET_NAMES[asset]\<close> and \<^verbatim>\<open>COLORS[asset]\<close> that building the figure
  makes for every asset of the frame, which raise \<^verbatim>\<open>KeyError\<close> on an asset they do not
  have. The store of allocations is \<open>None\<close> before the sliders have fired.
\<close>

definition figure_traces :: "portfolio_record list \<Rightarrow> error + unit" where
  "figure_traces portfolio_df =
     (if list_all (\<lambda>row. Asset row \<in> set (map fst ASSET_NAMES) \<and>
                          Asset row \<in> set (map fst COLORS)) portfolio_df
      then Inr () else Inl KeyError)"

record performance =
  Total_Value :: real
  Sum_Total_Invested :: real
  Total_Returns :: real
  Risk :: risk_metrics

datatype performance_output = No_data | Performance performance

definition update_portfolio_performance ::
  "(string \<times> real) list option \<Rightarrow> real \<Rightarrow> real \<Rightarrow> int \<Rightarrow> string \<Rightarrow> string list \<Rightarrow>
     error + performance_output" where
  "update_portfolio_performance allocations_store initial monthly years rebalancing lifecycle =
     (case allocations_store of
        None \<Rightarrow> Inr No_data
      | Some allocations \<Rightarrow>
          if allocations = [] then Inr No_data
          else
            let returns = DEFAULT_RETURNS;
                initial_amount = initial * 10000;
                monthly_amount = monthly * 10000
            in (case calculate_portfolio_returns allocations returns initial_amount
                       monthly_amount years of
                  Inl e \<Rightarrow> Inl e
                | Inr portfolio_df \<Rightarrow>
                    if portfolio_df = [] then Inr No_data
                    else
                      (case figure_traces portfolio_df of
                         Inl e \<Rightarrow> Inl e
                       | Inr fig \<Rightarrow>
                           (let final_year_data =
                                  filter (\<lambda>row. Year row = years) portfolio_df
                            in (case compute_risk_metrics allocations returns of
                                  Inl e \<Rightarrow> Inl e
                                | Inr risk \<Rightarrow>
                                    Inr (Performance
                                      \<lparr>Total_Value =
                                         sum_list (map Ending_Balance final_year_data),
                                       Sum_Total_Invested =
                                         sum_list (map Total_Invested final_year_data),
                                       Total_Returns =
                                         sum_list (map Total_Interest final_year_data),
                                       Risk = risk\<rparr>))))))"

record scenario =
  name :: string
  multiplier :: real
  volatility :: real

definition scenario_adjustments :: "(string \<times> scenario) list" where
  "scenario_adjustments =
     [(''scenario-bull'', \<lparr>name = ''Bull Market'', multiplier = 15 / 10, volatility = 12 / 10\<rparr>),
      (''scenario-bear'', \<lparr>name = ''Bear Market'', multiplier = 3 / 10, volatility = 18 / 10\<rparr>),
      (''scenario-normal'', \<lparr>name = ''Normal Market'', multiplier = 1, volatility = 1\<rparr>)]"

text \<open>
  The frame a scenario computes: every default return times the scenario's multiplier,
  then the aggregator on the same allocation, amounts and horizon.
\<close>

definition scenario_portfolio_df ::
  "scenario \<Rightarrow> (string \<times> real) list \<Rightarrow> real \<Rightarrow> real \<Rightarrow> int \<Rightarrow> error + portfolio_record list" where
  "scenario_portfolio_df scenario allocations initial monthly years =
     (let adjusted_returns = map (\<lambda>(k, v). (k, v * multiplier scenario)) DEFAULT_RETURNS;
          initial_amount = initial * 10000;
          monthly_amount = monthly * 10000
      in calculate_portfolio_returns allocations adjusted_returns initial_amount
           monthly_amount years)"

datatype scenario_output =
  Click_a_scenario_button
| Select_a_scenario
| No_data_available
| Scenario_result string real real

text \<open>
  \<open>triggered\<close> is the identifier of the button that fired (\<open>None\<close> when the callback
  context has no trigger); the result carries the scenario's name, the final value and
  the total invested.
\<close>

definition update_scenario_analysis ::
  "string option \<Rightarrow> (string \<times> real) list option \<Rightarrow> real \<Rightarrow> real \<Rightarrow> int \<Rightarrow>
     error + scenario_output" where
  "update_scenario_analysis triggered allocations_store initial monthly years =
     (case (triggered, allocations_store) of
        (Some button_id, Some allocations) \<Rightarrow>
          if allocations = [] then Inr Click_a_scenario_button
          else
            (case map_of scenario_adjustments button_id of
               None \<Rightarrow> Inr Select_a_scenario
             | Some scenario \<Rightarrow>
                 (case scenario_portfolio_df scenario allocations initial monthly years of
                    Inl e \<Rightarrow> Inl e
                  | Inr portfolio_df \<Rightarrow>
                      if portfolio_df = [] then Inr No_data_available
                      else
                        (let final_year_data =
                               filter (\<lambda>row. Year row = years) portfolio_df
                         in Inr (Scenario_result (name scenario)
                                   (sum_list (map Ending_Balance final_year_data))
                                   (sum_list (map Total_Invested final_year_data))))))
      | _ \<Rightarrow> Inr Click_a_scenario_button)"

subsection \<open>Closed forms of the ledger, for the statements and proofs below\<close>

text \<open>
  \<open>balance_after b k\<close> is the running balance \<open>k\<close> years after it was \<open>b\<close>;
  \<open>ledger_row b t year j\<close> is the row the outer loop appends \<open>j\<close> iterations after the
  state \<open>(b, t)\<close> at loop year \<open>year\<close>; \<open>opening_balance\<close> is the balance the twelve
  monthly steps of row \<open>i\<close> start from: the principal, or the closing balance of the row
  before.
\<close>

fun balance_after :: "real \<Rightarrow> real \<Rightarrow> real \<Rightarrow> nat \<Rightarrow> real" where
  "balance_after b monthly_payment annual_rate 0 = b"
| "balance_after b monthly_payment annual_rate (Suc k) =
     month_loop 12 monthly_payment annual_rate (balance_after b monthly_payment annual_rate k)"

definition ledger_row :: "real \<Rightarrow> real \<Rightarrow> real \<Rightarrow> real \<Rightarrow> int \<Rightarrow> nat \<Rightarrow> year_record" where
  "ledger_row b t monthly_payment annual_rate year j =
     \<lparr>Year = year + int j,
      Beginning_Balance = balance_after b monthly_payment annual_rate (Suc j)
         - balance_after b monthly_payment annual_rate j * annual_rate - monthly_payment * 12,
      Annual_Investment = monthly_payment * 12,
      Interest_Earned = balance_after b monthly_payment annual_rate j * annual_rate,
      Ending_Balance = balance_after b monthly_payment annual_rate (Suc j),
      Total_Invested = t + real (Suc j) * (monthly_payment * 12),
      Total_Interest = balance_after b monthly_payment annual_rate (Suc j)
         - (t + real (Suc j) * (monthly_payment * 12))\<rparr>"

definition opening_balance :: "real \<Rightarrow> year_record list \<Rightarrow> nat \<Rightarrow> real" where
  "opening_balance principal' ledger i =
     (if i = 0 then principal' else Ending_Balance (ledger ! (i - 1)))"


section \<open>Properties\<close>

subsection \<open>The compounding calculator\<close>

lemma py_pow_nonneg: "0 \<le> n \<Longrightarrow> py_pow b n = Inr (b ^ nat n)"
  by (simp add: py_pow_def)

text \<open>
  C9. With no periodic contribution the calculator returns \<open>principal * (1 + r) ^ n\<close>,
  for every rate (positive, zero or negative), every principal and both frequencies,
  where \<open>r\<close> and \<open>n\<close> are the period rate and the period count of the chosen frequency.
  It holds for every horizon from 0 on.
\<close>

theorem calculate_future_value_no_contribution:
  assumes "0 \<le> years"
  shows "calculate_future_value principal' 0 annual_rate years compound_frequency =
         Inr (principal' *
              (1 + (if compound_frequency = ''monthly'' then annual_rate / 12 else annual_rate))
                ^ nat (if compound_frequency = ''monthly'' then years * 12 else years))"
  using assms by (simp add: calculate_future_value_def py_pow_def Let_def)

theorem calculate_future_value_no_contribution_witness:
  "(0::int) \<le> 2 \<and> calculate_future_value 1000 0 (- 1 / 2) 2 ''yearly'' = Inr 250"
  using calculate_future_value_no_contribution
          [where years = 2 and principal' = 1000 and annual_rate = "- 1 / 2"
             and compound_frequency = "''yearly''"]
  by (simp add: power2_eq_square)

text \<open>
  C1. At a positive period rate the calculator returns the annuity formula, and at rate 0
  the contribution term is \<open>monthly_payment * n\<close>. At a negative period rate the guard
  \<^verbatim>\<open>r > 0\<close> sends the contribution term to the zero-rate fallback: with principal 0,
  contribution 100, annual rate -12 percent and one year of monthly compounding the
  calculator returns 1200, where the annuity formula gives less than 1137 and the ledger
  builder, on the same input, closes the year on exactly the annuity value.
\<close>

theorem calculate_future_value_negative_rate_uses_fallback:
  "calculate_future_value 0 100 (- 12 / 100) 1 ''monthly'' = Inr 1200
   \<and> (0::real) * (1 + (- 12 / 100) / 12) ^ 12
      + 100 * (((1 + (- 12 / 100) / 12) ^ 12 - 1) / ((- 12 / 100) / 12)) < 1137
   \<and> Ending_Balance (generate_year_by_year_data 0 100 (- 12 / 100) 1 ! 0) =
      100 * (((1 + (- 12 / 100) / 12) ^ 12 - 1) / ((- 12 / 100) / 12))"
  by (simp add: calculate_future_value_def py_pow_def generate_year_by_year_data_def
        year_loop.simps numeral_eq_Suc Let_def power_divide)

text \<open>The part of the formula the code does implement: positive and zero period rates.\<close>

lemma calculate_future_value_positive_rate:
  assumes "0 \<le> years"
    and "0 < (if compound_frequency = ''monthly'' then annual_rate / 12 else annual_rate)"
  shows "calculate_future_value principal' monthly_payment annual_rate years compound_frequency =
         Inr (principal' *
                (1 + (if compound_frequency = ''monthly'' then annual_rate / 12 else annual_rate))
                  ^ nat (if compound_frequency = ''monthly'' then years * 12 else years)
              + monthly_payment *
                (((1 + (if compound_frequency = ''monthly'' then annual_rate / 12
                        else annual_rate))
                    ^ nat (if compound_frequency = ''monthly'' then years * 12 else years) - 1)
                 / (if compound_frequency = ''monthly'' then annual_rate / 12 else annual_rate)))"
  using assms by (simp add: calculate_future_value_def py_pow_def Let_def)

lemma calculate_future_value_zero_rate:
  assumes "0 \<le> years"
  shows "calculate_future_value principal' monthly_payment 0 years compound_frequency =
         Inr (principal' + monthly_payment *
                of_int (if compound_frequency = ''monthly'' then years * 12 else years))"
  using assms by (simp add: calculate_future_value_def py_pow_def Let_def)

lemma calculate_future_value_negative_rate:
  assumes "0 \<le> years"
    and "(if compound_frequency = ''monthly'' then annual_rate / 12 else annual_rate) < 0"
  shows "calculate_future_value principal' monthly_payment annual_rate years compound_frequency =
         Inr (principal' *
                (1 + (if compound_frequency = ''monthly'' then annual_rate / 12 else annual_rate))
                  ^ nat (if compound_frequency = ''monthly'' then years * 12 else years)
              + monthly_payment *
                of_int (if compound_frequency = ''monthly'' then years * 12 else years))"
  using assms by (simp add: calculate_future_value_def py_pow_def Let_def)

subsection \<open>The year-by-year ledger\<close>

lemma balance_after_shift:
  "balance_after b mp ar (Suc k) = balance_after (month_loop 12 mp ar b) mp ar k"
  by (induction k) simp_all

lemma ledger_row_shift:
  "ledger_row b t mp ar year (Suc j) =
   ledger_row (month_loop 12 mp ar b) (t + mp * 12) mp ar (year + 1) j"
  unfolding ledger_row_def balance_after_shift [symmetric]
  by (simp add: algebra_simps)

lemma year_loop_rows:
  "year_loop mp ar years year (b, t, data) =
   data @ map (ledger_row b t mp ar year) [0..<nat (years + 1 - year)]"
proof (induction mp ar years year "(b, t, data)" arbitrary: b t data rule: year_loop.induct)
  case (1 mp ar years year b t data)
  show ?case
  proof (cases "year \<le> years")
    case False
    then show ?thesis by (simp add: year_loop.simps)
  next
    case True
    then obtain m where m: "nat (years + 1 - year) = Suc m" "nat (years + 1 - (year + 1)) = m"
      by (metis Suc_nat_eq_nat_zadd1 add.commute add_diff_cancel_left' diff_ge_0_iff_ge diff_add_eq)
    have step: "year_loop mp ar years year (b, t, data) =
        year_loop mp ar years (year + 1)
          (month_loop 12 mp ar b, t + mp * 12, data @ [ledger_row b t mp ar year 0])"
      using True
      by (subst year_loop.simps) (simp add: Let_def ledger_row_def)
    have "map (ledger_row b t mp ar year) [0..<Suc m] =
          ledger_row b t mp ar year 0 #
          map (ledger_row (month_loop 12 mp ar b) (t + mp * 12) mp ar (year + 1)) [0..<m]"
      by (simp only: upt_conv_Cons [of 0 "Suc m"] map_Suc_upt [symmetric] list.map map_map
            o_def ledger_row_shift)
    then show ?thesis
      using 1 [OF True refl refl refl refl] step m by (simp add: ledger_row_def)
  qed
qed

lemma generate_rows:
  "generate_year_by_year_data p mp ar years = map (ledger_row p p mp ar 1) [0..<nat years]"
  by (simp add: generate_year_by_year_data_def year_loop_rows)

lemma length_generate: "length (generate_year_by_year_data p mp ar years) = nat years"
  by (simp add: generate_rows)

lemma nth_generate:
  "i < nat years \<Longrightarrow> generate_year_by_year_data p mp ar years ! i = ledger_row p p mp ar 1 i"
  by (simp add: generate_rows)

lemma opening_balance_generate:
  "i < nat years \<Longrightarrow>
   opening_balance p (generate_year_by_year_data p mp ar years) i = balance_after p mp ar i"
  by (cases i) (simp_all add: opening_balance_def nth_generate ledger_row_def)

lemma sum_true_interest:
  "sum_list (map (\<lambda>j. balance_after p mp ar (Suc j) - balance_after p mp ar j - mp * 12) [0..<Suc i])
   = balance_after p mp ar (Suc i) - (p + real (Suc i) * (mp * 12))"
  by (induction i) (simp_all add: algebra_simps)

lemma month_loop_zero_rate: "month_loop k mp 0 b = b + real k * mp"
  by (induction k arbitrary: b) (simp_all add: algebra_simps)

lemma balance_after_zero_rate: "balance_after p mp 0 k = p + real k * (mp * 12)"
  by (induction k) (simp_all add: month_loop_zero_rate algebra_simps)

lemma month_loop_closed:
  assumes "ar \<noteq> 0"
  shows "month_loop k mp ar b =
         b * (1 + ar / 12) ^ k + mp * (((1 + ar / 12) ^ k - 1) / (ar / 12))"
proof (induction k arbitrary: b)
  case 0
  show ?case by simp
next
  case (Suc k)
  define r where "r = ar / 12"
  define q where "q = (1 + r) ^ k"
  have r: "r \<noteq> 0" using assms by (simp add: r_def)
  have "(b * (1 + r) + mp) * q + mp * ((q - 1) / r) =
        b * ((1 + r) * q) + mp * (((1 + r) * q - 1) / r)"
    using r by (simp add: field_simps)
  then show ?case
    by (simp add: Suc.IH r_def q_def)
qed

lemma month_loop_add:
  "month_loop (a + c) mp ar b = month_loop c mp ar (month_loop a mp ar b)"
  by (induction a arbitrary: b) simp_all

lemma balance_after_months: "balance_after p mp ar k = month_loop (12 * k) mp ar p"
proof (induction k)
  case 0
  show ?case by simp
next
  case (Suc k)
  have "12 * Suc k = 12 * k + 12" by simp
  then show ?case using Suc by (simp only: month_loop_add balance_after.simps)
qed

lemma ledger_closing_balance_annuity:
  assumes "0 < years" "ar \<noteq> 0"
  shows "Ending_Balance (last (generate_year_by_year_data p mp ar years)) =
         p * (1 + ar / 12) ^ nat (years * 12)
         + mp * (((1 + ar / 12) ^ nat (years * 12) - 1) / (ar / 12))"
proof -
  obtain m where m: "nat years = Suc m" using assms(1) by (metis Suc_pred' zero_less_nat_eq)
  have "last (generate_year_by_year_data p mp ar years) = ledger_row p p mp ar 1 m"
    by (simp add: generate_rows m)
  moreover have "12 * Suc m = nat (years * 12)" using m assms(1) by (simp add: nat_mult_distrib)
  ultimately show ?thesis
    using month_loop_closed [OF assms(2), of "12 * Suc m" mp p]
    by (simp only: ledger_row_def balance_after_months year_record.simps)
qed

text \<open>
  What the ledger builder computes, for every row: the interest earned is the annual
  rate times the balance the year opens with, the closing balance is that opening balance
  after twelve monthly steps, and the \<open>Beginning_Balance\<close> field is the closing balance
  minus interest earned minus annual investment.
\<close>

lemma ledger_interest_is_rate_times_opening_balance:
  assumes "i < length (generate_year_by_year_data principal' monthly_payment annual_rate years)"
  shows "Interest_Earned (generate_year_by_year_data principal' monthly_payment annual_rate years ! i) =
           opening_balance principal'
             (generate_year_by_year_data principal' monthly_payment annual_rate years) i
           * annual_rate
       \<and> Ending_Balance (generate_year_by_year_data principal' monthly_payment annual_rate years ! i) =
           month_loop 12 monthly_payment annual_rate
             (opening_balance principal'
                (generate_year_by_year_data principal' monthly_payment annual_rate years) i)
       \<and> Annual_Investment (generate_year_by_year_data principal' monthly_payment annual_rate years ! i) =
           monthly_payment * 12"
proof -
  from assms have i: "i < nat years" by (simp add: length_generate)
  show ?thesis
    by (simp add: opening_balance_generate [OF i] nth_generate [OF i] ledger_row_def)
qed

lemma ledger_row_field_identity:
  assumes "i < length (generate_year_by_year_data principal' monthly_payment annual_rate years)"
  shows "Ending_Balance (generate_year_by_year_data principal' monthly_payment annual_rate years ! i) =
           Beginning_Balance
             (generate_year_by_year_data principal' monthly_payment annual_rate years ! i)
           + Annual_Investment
               (generate_year_by_year_data principal' monthly_payment annual_rate years ! i)
           + Interest_Earned
               (generate_year_by_year_data principal' monthly_payment annual_rate years ! i)"
proof -
  from assms have i: "i < nat years" by (simp add: length_generate)
  show ?thesis
    by (simp add: nth_generate [OF i] ledger_row_def)
qed

text \<open>
  The cumulative interest of every row is its closing balance minus its cumulative
  invested amount, which is the running sum of closing balance minus opening balance
  minus annual investment; it is the running sum of the \<open>Interest_Earned\<close> fields when
  the annual rate is 0.
\<close>

lemma ledger_total_interest_is_sum_of_balance_gains:
  assumes "i < length (generate_year_by_year_data principal' monthly_payment annual_rate years)"
  shows "Total_Interest (generate_year_by_year_data principal' monthly_payment annual_rate years ! i) =
           Ending_Balance (generate_year_by_year_data principal' monthly_payment annual_rate years ! i)
           - Total_Invested
               (generate_year_by_year_data principal' monthly_payment annual_rate years ! i)
       \<and> Total_Interest (generate_year_by_year_data principal' monthly_payment annual_rate years ! i) =
           sum_list
             (map (\<lambda>j. Ending_Balance
                          (generate_year_by_year_data principal' monthly_payment annual_rate years ! j)
                        - opening_balance principal'
                            (generate_year_by_year_data principal' monthly_payment annual_rate years) j
                        - Annual_Investment
                            (generate_year_by_year_data principal' monthly_payment annual_rate years ! j))
                [0..<Suc i])
       \<and> (annual_rate = 0 \<longrightarrow>
           Total_Interest (generate_year_by_year_data principal' monthly_payment annual_rate years ! i) =
           sum_list
             (map (\<lambda>j. Interest_Earned
                          (generate_year_by_year_data principal' monthly_payment annual_rate years ! j))
                [0..<Suc i]))"
proof -
  let ?L = "generate_year_by_year_data principal' monthly_payment annual_rate years"
  let ?B = "balance_after principal' monthly_payment annual_rate"
  from assms have i: "i < nat years" by (simp add: length_generate)
  have rows:
    "map (\<lambda>j. Ending_Balance (?L ! j) - opening_balance principal' ?L j - Annual_Investment (?L ! j))
       [0..<Suc i] =
     map (\<lambda>j. ?B (Suc j) - ?B j - monthly_payment * 12) [0..<Suc i]"
  proof (rule map_cong [OF refl])
    fix j assume "j \<in> set [0..<Suc i]"
    with i have j: "j < nat years" by auto
    show "Ending_Balance (?L ! j) - opening_balance principal' ?L j - Annual_Investment (?L ! j) =
          ?B (Suc j) - ?B j - monthly_payment * 12"
      by (simp add: opening_balance_generate [OF j] nth_generate [OF j] ledger_row_def)
  qed
  have a: "Total_Interest (?L ! i) = Ending_Balance (?L ! i) - Total_Invested (?L ! i)"
    by (simp add: nth_generate [OF i] ledger_row_def)
  have b: "Total_Interest (?L ! i) =
        sum_list (map (\<lambda>j. Ending_Balance (?L ! j) - opening_balance principal' ?L j
                          - Annual_Investment (?L ! j)) [0..<Suc i])"
    unfolding rows sum_true_interest by (simp add: nth_generate [OF i] ledger_row_def)
  have c: "Total_Interest (?L ! i) = sum_list (map (\<lambda>j. Interest_Earned (?L ! j)) [0..<Suc i])"
    if "annual_rate = 0"
  proof -
    have "map (\<lambda>j. Interest_Earned (?L ! j)) [0..<Suc i] = map (\<lambda>j. 0) [0..<Suc i]"
    proof (rule map_cong [OF refl])
      fix j assume "j \<in> set [0..<Suc i]"
      with i have j: "j < nat years" by auto
      show "Interest_Earned (?L ! j) = 0"
        using that by (simp add: nth_generate [OF j] ledger_row_def)
    qed
    then have "sum_list (map (\<lambda>j. Interest_Earned (?L ! j)) [0..<Suc i]) = 0"
      by (simp only: sum_list_0)
    moreover have "Total_Interest (?L ! i) = 0"
      using that
      by (simp add: nth_generate [OF i] ledger_row_def balance_after_zero_rate
            month_loop_zero_rate algebra_simps)
    ultimately show ?thesis by simp
  qed
  show ?thesis using a b c by simp
qed

text \<open>
  C2. The interest earned of a year should be the closing balance minus the balance the
  year began with minus the annual investment, with the closing balance twelve monthly
  steps from that beginning balance. The code reports simple annual interest on the
  opening balance instead, and derives the \<open>Beginning_Balance\<close> field backwards from it.
  At principal 100, no contribution, 12 percent and one year: the interest earned is 12
  where closing minus beginning minus investment is \<open>100 * 1.01 ^ 12 - 100\<close>, above 12;
  the \<open>Beginning_Balance\<close> field is \<open>100 * 1.01 ^ 12 - 12\<close> and not the 100 the year began
  with, and the closing balance is not twelve monthly steps from that field.
\<close>

theorem interest_earned_not_balance_difference:
  "Interest_Earned (generate_year_by_year_data 100 0 (12 / 100) 1 ! 0) = 12
   \<and> Ending_Balance (generate_year_by_year_data 100 0 (12 / 100) 1 ! 0) - 100
     - Annual_Investment (generate_year_by_year_data 100 0 (12 / 100) 1 ! 0) =
     100 * (101 / 100) ^ 12 - 100
   \<and> (12 :: real) < 100 * (101 / 100) ^ 12 - 100
   \<and> Beginning_Balance (generate_year_by_year_data 100 0 (12 / 100) 1 ! 0) =
     100 * (101 / 100) ^ 12 - 12
   \<and> Beginning_Balance (generate_year_by_year_data 100 0 (12 / 100) 1 ! 0) \<noteq> 100
   \<and> Ending_Balance (generate_year_by_year_data 100 0 (12 / 100) 1 ! 0) \<noteq>
     month_loop 12 0 (12 / 100)
       (Beginning_Balance (generate_year_by_year_data 100 0 (12 / 100) 1 ! 0))"
  by (simp add: generate_year_by_year_data_def year_loop.simps numeral_eq_Suc Let_def
        power_divide)

text \<open>
  C3. The cumulative interest of a row should be the running sum of the interest earned
  of the rows up to it. In the code the two come from different formulas. At principal
  100, no contribution, 12 percent and two years: the cumulative interest of the second
  row is \<open>100 * 1.01 ^ 24 - 100\<close>, the interest earned of the two rows adds up to
  \<open>12 + 12 * 1.01 ^ 12\<close>, which is less; already in the first row the cumulative interest
  is \<open>100 * 1.01 ^ 12 - 100\<close> and the interest earned 12.
\<close>

theorem total_interest_not_sum_of_interest_earned:
  "Total_Interest (generate_year_by_year_data 100 0 (12 / 100) 2 ! 1) =
     100 * (101 / 100) ^ 24 - 100
   \<and> sum_list (map Interest_Earned (generate_year_by_year_data 100 0 (12 / 100) 2)) =
     12 + 12 * (101 / 100) ^ 12
   \<and> (12 + 12 * (101 / 100) ^ 12 :: real) < 100 * (101 / 100) ^ 24 - 100
   \<and> Total_Interest (generate_year_by_year_data 100 0 (12 / 100) 2 ! 0) =
     100 * (101 / 100) ^ 12 - 100
   \<and> Interest_Earned (generate_year_by_year_data 100 0 (12 / 100) 2 ! 0) = 12"
  by (simp add: generate_year_by_year_data_def year_loop.simps numeral_eq_Suc Let_def
        power_divide)

subsection \<open>Parameters outside the data model\<close>








subsection \<open>The portfolio aggregator\<close>

lemma asset_loop_filter:
  "asset_loop allocations returns p mp years acc =
   asset_loop (filter (\<lambda>(asset, allocation). allocation > 0) allocations) returns p mp years acc"
  by (induction allocations returns p mp years acc rule: asset_loop.induct)
     (auto split: sum.splits)

lemma asset_loop_no_positive:
  assumes "\<forall>(asset, allocation) \<in> set allocations. \<not> allocation > 0"
  shows "asset_loop allocations returns p mp years acc = Inr acc"
proof -
  have "filter (\<lambda>(asset, allocation). allocation > 0) allocations = []"
    using assms by (auto simp: filter_empty_conv)
  then show ?thesis
    by (subst asset_loop_filter) simp
qed

lemma truncate_tag_row: "year_record.truncate (tag_row asset allocation row) = row"
  by (simp add: tag_row_def year_record.truncate_def)

lemma asset_body_ok:
  assumes "map_of returns asset = Some asset_return"
    and "0 \<le> years \<or> asset_return \<noteq> - 12"
  shows "\<exists>fv. asset_body returns p mp years asset allocation =
           Inr (fv, map (tag_row asset allocation)
                  (generate_year_by_year_data (p * allocation) (mp * allocation) asset_return years))"
  using assms
  by (auto simp add: asset_body_def dict_get_def calculate_future_value_def py_pow_def Let_def)

text \<open>
  C5. When the only asset of positive weight has weight 1 (and a return in the table),
  the aggregator returns the rows of the ledger builder run on the full principal and
  contribution with that asset's return, each row tagged with the asset and the weight
  1: dropping the two tags gives back the ledger, field for field. The horizon is any
  horizon of the data model; the statement also covers horizons below 1 unless the
  return is -12, where the discarded future value raises \<^verbatim>\<open>ZeroDivisionError\<close>.
\<close>

theorem single_asset_portfolio_is_ledger:
  assumes "filter (\<lambda>(asset, allocation). allocation > 0) allocations = [(asset, 1)]"
    and "map_of returns asset = Some asset_return"
    and "0 \<le> years \<or> asset_return \<noteq> - 12"
  shows "calculate_portfolio_returns allocations returns principal' monthly_payment years =
           Inr (map (tag_row asset 1)
                  (generate_year_by_year_data principal' monthly_payment asset_return years))
       \<and> map year_record.truncate
            (map (tag_row asset 1)
               (generate_year_by_year_data principal' monthly_payment asset_return years)) =
           generate_year_by_year_data principal' monthly_payment asset_return years"
proof -
  obtain fv where "asset_body returns principal' monthly_payment years asset 1 =
      Inr (fv, map (tag_row asset 1)
                 (generate_year_by_year_data principal' monthly_payment asset_return years))"
    using asset_body_ok [OF assms(2,3), of principal' monthly_payment 1] by auto
  then have "asset_loop allocations returns principal' monthly_payment years [] =
      Inr [map (tag_row asset 1)
             (generate_year_by_year_data principal' monthly_payment asset_return years)]"
    by (subst asset_loop_filter) (simp add: assms(1))
  then show ?thesis
    by (simp add: calculate_portfolio_returns_def truncate_tag_row o_def)
qed

theorem single_asset_portfolio_is_ledger_witness:
  "calculate_portfolio_returns [(''stocks_kr'', 0), (''bonds'', 1)] DEFAULT_RETURNS 100 10 1 =
     Inr (map (tag_row ''bonds'' 1) (generate_year_by_year_data 100 10 (35 / 1000) 1))"
proof -
  have a: "filter (\<lambda>(asset, allocation). allocation > 0) [(''stocks_kr'', 0::real), (''bonds'', 1)] =
           [(''bonds'', 1)]"
    by simp
  have b: "map_of DEFAULT_RETURNS ''bonds'' = Some (35 / 1000)"
    by (simp add: DEFAULT_RETURNS_def)
  have c: "(0::int) \<le> 1 \<or> (35 / 1000 :: real) \<noteq> - 12"
    by simp
  show ?thesis
    using single_asset_portfolio_is_ledger
            [OF a b c, where principal' = 100 and monthly_payment = 10]
    by simp
qed

text \<open>
  C7. When no asset of the allocation has positive weight, the loop collects no
  per-asset ledger, the aggregator returns the empty frame and raises nothing, and the
  callers treat the empty frame as no data: the performance callback returns
  \<open>No_data\<close>, the scenario callback one of its three messages and no result.
\<close>

theorem empty_allocation_gives_empty_portfolio:
  assumes "\<forall>(asset, allocation) \<in> set allocations. \<not> allocation > 0"
  shows "asset_loop allocations returns principal' monthly_payment years [] = Inr []
       \<and> calculate_portfolio_returns allocations returns principal' monthly_payment years = Inr []
       \<and> update_portfolio_performance (Some allocations) initial monthly years rebalancing
            lifecycle = Inr No_data
       \<and> update_scenario_analysis (Some button_id) (Some allocations) initial monthly years =
            Inr (if allocations = [] then Click_a_scenario_button
                 else if map_of scenario_adjustments button_id = None then Select_a_scenario
                 else No_data_available)"
proof -
  have a: "asset_loop allocations returns p mp years [] = Inr []" for returns p mp
    by (rule asset_loop_no_positive [OF assms])
  have b: "calculate_portfolio_returns allocations returns p mp years = Inr []" for returns p mp
    by (simp add: calculate_portfolio_returns_def a)
  show ?thesis
    by (auto simp add: a b update_portfolio_performance_def update_scenario_analysis_def
          scenario_portfolio_df_def Let_def split: option.splits)
qed

theorem empty_allocation_gives_empty_portfolio_witness:
  "calculate_portfolio_returns [(''stocks_kr'', 0), (''bonds'', 0)] DEFAULT_RETURNS 100 10 5 = Inr []
   \<and> update_portfolio_performance (Some [(''stocks_kr'', 0), (''bonds'', 0)]) 100 10 5
        ''yearly'' [] = Inr No_data
   \<and> update_scenario_analysis (Some ''scenario-bear'') (Some [(''stocks_kr'', 0), (''bonds'', 0)])
        100 10 5 = Inr No_data_available"
proof -
  have h: "\<forall>(asset, allocation) \<in> set [(''stocks_kr'', 0::real), (''bonds'', 0)]. \<not> allocation > 0"
    by simp
  show ?thesis
    using empty_allocation_gives_empty_portfolio
            [OF h, where returns = DEFAULT_RETURNS and principal' = 100
               and monthly_payment = 10 and years = 5 and initial = 100 and monthly = 10
               and rebalancing = "''yearly''" and lifecycle = "[]"
               and button_id = "''scenario-bear''"]
    by (simp add: scenario_adjustments_def)
qed

text \<open>
  C8. The normal scenario has multiplier 1, and the frame it computes is the frame the
  aggregator computes from the unadjusted default returns on the same allocation,
  amounts and horizon (errors included).
\<close>

theorem normal_scenario_reproduces_portfolio:
  "map_of scenario_adjustments ''scenario-normal'' =
     Some \<lparr>name = ''Normal Market'', multiplier = 1, volatility = 1\<rparr>
   \<and> scenario_portfolio_df \<lparr>name = ''Normal Market'', multiplier = 1, volatility = 1\<rparr>
        allocations initial monthly years =
      calculate_portfolio_returns allocations DEFAULT_RETURNS (initial * 10000)
        (monthly * 10000) years"
  by (simp add: scenario_adjustments_def scenario_portfolio_df_def Let_def DEFAULT_RETURNS_def)

text \<open>
  C10. The aggregator passes no frequency to the calculator, so the future value it
  computes for an asset is the monthly one, with period rate \<open>asset_return / 12\<close> and
  \<open>years * 12\<close> periods, on the asset's share of principal and contribution. Neither the
  aggregator nor the two portfolio callbacks take a frequency argument, and the future
  value is not part of what the aggregator returns.
\<close>

theorem portfolio_future_value_is_monthly:
  assumes "map_of returns asset = Some asset_return" and "0 \<le> years"
  shows "asset_body returns principal' monthly_payment years asset allocation =
     Inr (principal' * allocation * (1 + asset_return / 12) ^ nat (years * 12)
          + (if asset_return / 12 > 0
             then monthly_payment * allocation *
                  (((1 + asset_return / 12) ^ nat (years * 12) - 1) / (asset_return / 12))
             else monthly_payment * allocation * of_int (years * 12)),
          map (tag_row asset allocation)
            (generate_year_by_year_data (principal' * allocation) (monthly_payment * allocation)
               asset_return years))"
  using assms
  by (simp add: asset_body_def dict_get_def calculate_future_value_def py_pow_def Let_def)

theorem portfolio_future_value_is_monthly_witness:
  "asset_body [(''bonds'', 12 / 100)] 100 0 1 ''bonds'' 1 =
     Inr (100 * (101 / 100) ^ 12,
          map (tag_row ''bonds'' 1) (generate_year_by_year_data 100 0 (12 / 100) 1))
   \<and> calculate_future_value 100 0 (12 / 100) 1 ''yearly'' = Inr 112
   \<and> (100 * (101 / 100) ^ 12 :: real) \<noteq> 112"
proof -
  have a: "map_of [(''bonds'', 12 / 100 :: real)] ''bonds'' = Some (12 / 100)"
    by simp
  have b: "(0::int) \<le> 1"
    by simp
  have c: "calculate_future_value 100 0 (12 / 100) 1 ''yearly'' = Inr 112"
    by (simp add: calculate_future_value_def py_pow_def Let_def)
  have d: "(100 * (101 / 100) ^ 12 :: real) \<noteq> 112"
    by (simp add: power_divide)
  show ?thesis
    using portfolio_future_value_is_monthly
            [OF a b, where principal' = 100 and monthly_payment = 0 and allocation = 1] c d
    by simp
qed

subsection \<open>Risk metrics\<close>

lemma weighted_return_sum_closed:
  assumes "\<forall>(asset, allocation) \<in> set allocations. asset \<in> set (map fst returns)"
  shows "weighted_return_sum allocations returns acc =
         Inr (acc + sum_list (map (\<lambda>(asset, allocation). allocation * the (map_of returns asset))
                                allocations))"
  using assms
proof (induction allocations returns acc rule: weighted_return_sum.induct)
  case (1 returns acc)
  show ?case by simp
next
  case (2 asset allocation items returns acc)
  from "2.prems" obtain asset_return where r: "map_of returns asset = Some asset_return"
    by (cases "map_of returns asset") (auto simp add: map_of_eq_None_iff)
  have "dict_get returns asset = Inr asset_return"
    by (simp add: dict_get_def r)
  then show ?case
    using 2 r by (simp add: algebra_simps)
qed

lemma weighted_return_sum_error:
  "weighted_return_sum allocations returns acc = Inl e \<Longrightarrow> e \<noteq> ZeroDivisionError"
  by (induction allocations returns acc rule: weighted_return_sum.induct)
     (auto simp add: dict_get_def split: option.splits sum.splits)

lemma variance_sum_nonneg: "0 \<le> variance_sum allocations"
  unfolding variance_sum_def
  by (rule sum_list_nonneg) (auto split: option.splits)

lemma variance_sum_explicit:
  "variance_sum allocations =
   sum_list (map (\<lambda>(asset, allocation).
                    allocation ^ 2 * (the (map_of ASSET_VOLATILITY asset)) ^ 2)
               (filter (\<lambda>(asset, allocation). asset \<in> set (map fst ASSET_VOLATILITY))
                  allocations))"
  unfolding variance_sum_def
proof (rule arg_cong [where f = sum_list], rule map_cong [OF refl])
  fix x assume x: "x \<in> set (filter (\<lambda>(asset, allocation). asset \<in> set (map fst ASSET_VOLATILITY))
                  allocations)"
  obtain asset allocation where p: "x = (asset, allocation)" by (cases x)
  with x have "asset \<in> fst ` set ASSET_VOLATILITY" by auto
  then obtain v where "map_of ASSET_VOLATILITY asset = Some v"
    by (cases "map_of ASSET_VOLATILITY asset") (auto simp add: map_of_eq_None_iff)
  then show "(case x of (asset, allocation) \<Rightarrow>
               allocation ^ 2 *
               (case map_of ASSET_VOLATILITY asset of None \<Rightarrow> 0 | Some v \<Rightarrow> v) ^ 2) =
             (case x of (asset, allocation) \<Rightarrow>
               allocation ^ 2 * (the (map_of ASSET_VOLATILITY asset)) ^ 2)"
    by (simp add: p)
qed


text \<open>
  C6. For every allocation whose assets all have a return in the table, the Sharpe ratio
  is (weighted return - 0.03) / volatility when the volatility is not 0, and 0 when it
  is 0, where the weighted return is the sum of weight times return over the assets and
  the volatility is the square root of the sum of weight squared times volatility
  squared over the assets of the volatility table. The division is only evaluated under
  the guard, so no \<^verbatim>\<open>ZeroDivisionError\<close> can come out, whatever the return table.
\<close>

theorem sharpe_ratio_guards_zero_volatility:
  assumes "\<forall>(asset, allocation) \<in> set allocations. asset \<in> set (map fst returns)"
  shows "compute_risk_metrics allocations returns =
     Inr \<lparr>Weighted_Return =
            sum_list (map (\<lambda>(asset, allocation). allocation * the (map_of returns asset))
                        allocations),
          Portfolio_Volatility =
            sqrt (sum_list
                    (map (\<lambda>(asset, allocation).
                            allocation ^ 2 * (the (map_of ASSET_VOLATILITY asset)) ^ 2)
                       (filter (\<lambda>(asset, allocation). asset \<in> set (map fst ASSET_VOLATILITY))
                          allocations))),
          Sharpe_Ratio =
            (if sqrt (sum_list
                        (map (\<lambda>(asset, allocation).
                                allocation ^ 2 * (the (map_of ASSET_VOLATILITY asset)) ^ 2)
                           (filter (\<lambda>(asset, allocation).
                                      asset \<in> set (map fst ASSET_VOLATILITY))
                              allocations))) = 0
             then 0
             else (sum_list (map (\<lambda>(asset, allocation). allocation * the (map_of returns asset))
                              allocations) - 3 / 100)
                  / sqrt (sum_list
                            (map (\<lambda>(asset, allocation).
                                    allocation ^ 2 * (the (map_of ASSET_VOLATILITY asset)) ^ 2)
                               (filter (\<lambda>(asset, allocation).
                                          asset \<in> set (map fst ASSET_VOLATILITY))
                                  allocations)))),
          Max_Drawdown =
            sqrt (sum_list
                    (map (\<lambda>(asset, allocation).
                            allocation ^ 2 * (the (map_of ASSET_VOLATILITY asset)) ^ 2)
                       (filter (\<lambda>(asset, allocation). asset \<in> set (map fst ASSET_VOLATILITY))
                          allocations))) * 2\<rparr>
   \<and> compute_risk_metrics allocations returns' \<noteq> Inl ZeroDivisionError"
proof -
  have pos: "0 < sqrt (variance_sum allocations) \<longleftrightarrow> sqrt (variance_sum allocations) \<noteq> 0"
    using variance_sum_nonneg [of allocations] by auto
  have a: "compute_risk_metrics allocations returns' \<noteq> Inl ZeroDivisionError"
    using weighted_return_sum_error [of allocations returns' 0]
    by (auto simp add: compute_risk_metrics_def checked_div_def Let_def split: sum.splits)
  have b: "compute_risk_metrics allocations returns =
     Inr \<lparr>Weighted_Return =
            sum_list (map (\<lambda>(asset, allocation). allocation * the (map_of returns asset))
                        allocations),
          Portfolio_Volatility = sqrt (variance_sum allocations),
          Sharpe_Ratio =
            (if sqrt (variance_sum allocations) = 0 then 0
             else (sum_list (map (\<lambda>(asset, allocation). allocation * the (map_of returns asset))
                              allocations) - 3 / 100)
                  / sqrt (variance_sum allocations)),
          Max_Drawdown = sqrt (variance_sum allocations) * 2\<rparr>"
    using pos
    by (simp add: compute_risk_metrics_def weighted_return_sum_closed [OF assms]
          checked_div_def Let_def)
  from b [unfolded variance_sum_explicit] a show ?thesis
    by (rule conjI)
qed

lemma sqrt_400: "sqrt (1 / 400) = 1 / 20"
  by (rule real_sqrt_unique) (simp_all add: power2_eq_square)

theorem sharpe_ratio_guards_zero_volatility_witness:
  "compute_risk_metrics
     [(''bonds'', 6 / 10), (''stocks_kr'', 2 / 10), (''single_asset'', 2 / 10)] DEFAULT_RETURNS =
     Inr \<lparr>Weighted_Return = 49 / 1000, Portfolio_Volatility = 1 / 20,
          Sharpe_Ratio = 38 / 100, Max_Drawdown = 1 / 10\<rparr>"
proof -
  have h: "\<forall>(asset, allocation) \<in>
             set [(''bonds'', 6 / 10 :: real), (''stocks_kr'', 2 / 10), (''single_asset'', 2 / 10)].
             asset \<in> set (map fst DEFAULT_RETURNS)"
    by (simp add: DEFAULT_RETURNS_def)
  have w: "sum_list (map (\<lambda>(asset, allocation). allocation * the (map_of DEFAULT_RETURNS asset))
             [(''bonds'', 6 / 10 :: real), (''stocks_kr'', 2 / 10), (''single_asset'', 2 / 10)]) =
           49 / 1000"
    by (simp add: DEFAULT_RETURNS_def)
  have v: "sum_list
             (map (\<lambda>(asset, allocation).
                     allocation ^ 2 * (the (map_of ASSET_VOLATILITY asset)) ^ 2)
                (filter (\<lambda>(asset, allocation). asset \<in> set (map fst ASSET_VOLATILITY))
                   [(''bonds'', 6 / 10 :: real), (''stocks_kr'', 2 / 10),
                    (''single_asset'', 2 / 10)])) = 1 / 400"
    by (simp add: ASSET_VOLATILITY_def power2_eq_square)
  show ?thesis
    using sharpe_ratio_guards_zero_volatility [OF h]
    by (simp only: w v sqrt_400) simp
qed


end
